theory Spec2Isabelle
  imports Main "HOL-Library.Sublist" "HOL-Library.AList"
begin

section \<open>The react-storefront service worker\<close>

text \<open>
  A shallow embedding of \<^verbatim>\<open>src/service-worker/service-worker.js\<close>: the request
  classifier \<^verbatim>\<open>matchRuntimePath\<close>, the route handler registered for it and the route
  itself, the \<^verbatim>\<open>message\<close> listener and the cache sweep of the \<^verbatim>\<open>install\<close> listener.

  The file imports \<^verbatim>\<open>IS_AMP_REGEX\<close>, \<^verbatim>\<open>prefetch\<close>, \<^verbatim>\<open>abortPrefetches\<close>,
  \<^verbatim>\<open>resumePrefetches\<close>, \<^verbatim>\<open>offlineResponse\<close> and \<^verbatim>\<open>getAPICacheName\<close> from modules
  that are not part of the sources, and it runs on the browser's network and cache
  storage. Each of them is a parameter of the model (the record \<open>env\<close> below): a call of
  an imported function yields either a value or a thrown exception, as any JavaScript
  call may. Promises are modelled by their settled state; console output is left out,
  except the warning of the handler's \<^verbatim>\<open>catch\<close> block, which marks that the block ran.
\<close>

subsection \<open>JavaScript values and exceptions\<close>

datatype js =
    JUndefined
  | JNull
  | JBool bool
  | JNum int
  | JStr string
  | JObj "(string \<times> js) list"

datatype exn =
    ReferenceError string
  | TypeError string
  | NoResponse
  | Thrown string

text \<open>Truthiness, as \<^verbatim>\<open>if (x)\<close>, \<^verbatim>\<open>!x\<close> and \<^verbatim>\<open>x && y\<close> test it.\<close>

fun truthy :: "js \<Rightarrow> bool" where
  "truthy JUndefined = False"
| "truthy JNull = False"
| "truthy (JBool b) = b"
| "truthy (JNum n) = (n \<noteq> 0)"
| "truthy (JStr s) = (s \<noteq> [])"
| "truthy (JObj fs) = True"

text \<open>
  Reading a property: of \<^verbatim>\<open>undefined\<close> and \<^verbatim>\<open>null\<close> it throws a TypeError, of an
  object it gives the field or \<^verbatim>\<open>undefined\<close>, of any other primitive \<^verbatim>\<open>undefined\<close>
  (none of the names read here is a property of a wrapper prototype).
\<close>

fun get_prop :: "js \<Rightarrow> string \<Rightarrow> exn + js" where
  "get_prop JUndefined k = Inl (TypeError k)"
| "get_prop JNull k = Inl (TypeError k)"
| "get_prop (JObj fs) k = Inr (case map_of fs k of None \<Rightarrow> JUndefined | Some v \<Rightarrow> v)"
| "get_prop v k = Inr JUndefined"

text \<open>
  \<^verbatim>\<open>Headers.get\<close> compares header names without regard to the case of ASCII letters.
  It gives the values of all headers of that name, in their order and joined by a
  comma and a space, or \<^verbatim>\<open>null\<close> (here \<open>None\<close>) when there is none. A header that is
  present with an empty value is a falsy string.
\<close>

type_synonym headers = "(string \<times> string) list"

definition lower_char :: "char \<Rightarrow> char" where
  "lower_char ch =
     (case map_of (zip ''ABCDEFGHIJKLMNOPQRSTUVWXYZ'' ''abcdefghijklmnopqrstuvwxyz'') ch of
        None \<Rightarrow> ch
      | Some l \<Rightarrow> l)"

definition lower :: "string \<Rightarrow> string" where
  "lower s = map lower_char s"

fun join_values :: "string list \<Rightarrow> string" where
  "join_values [] = []"
| "join_values [v] = v"
| "join_values (v # w # vs) = v @ '', '' @ join_values (w # vs)"

definition headers_get :: "headers \<Rightarrow> string \<Rightarrow> string option" where
  "headers_get hs name =
     (case map snd (filter (\<lambda>h. lower (fst h) = lower name) hs) of
        [] \<Rightarrow> None
      | v # vs \<Rightarrow> Some (join_values (v # vs)))"

fun truthy_str :: "string option \<Rightarrow> bool" where
  "truthy_str None = False"
| "truthy_str (Some s) = (s \<noteq> [])"

definition startsWith :: "string \<Rightarrow> string \<Rightarrow> bool" where
  "startsWith s p = prefix p s"

subsection \<open>Requests and responses\<close>

record url =
  protocol :: string
  hostname :: string
  pathname :: string
  search :: string

record request =
  req_headers :: headers
  cache :: string
  mode :: string

record response =
  status :: nat
  res_headers :: headers
  body :: string

text \<open>The route's argument: \<^verbatim>\<open>context.url\<close> and \<^verbatim>\<open>context.event.request\<close>.\<close>

record fetch_ctx =
  url :: url
  request :: request

subsection \<open>The request classifier\<close>

definition isSecure :: "fetch_ctx \<Rightarrow> bool" where
  "isSecure c = (protocol (url c) = ''https:'' \<or> hostname (url c) = ''localhost'')"

definition isStaticAsset :: "fetch_ctx \<Rightarrow> bool" where
  "isStaticAsset c = startsWith (pathname (url c)) ''/_next/static/''"

text \<open>
  \<^verbatim>\<open>isVideo\<close> tests the path against \<^verbatim>\<open>/\.mp4(\?.*)?$/\<close>. The expression is tried at
  every position: the literal \<^verbatim>\<open>.mp4\<close>, then either the end of the string, or a
  question mark and any characters but line terminators up to the end. Of the line
  terminators, line feed and carriage return are characters of the model.
\<close>

definition line_terminator :: "char \<Rightarrow> bool" where
  "line_terminator ch = (ch = CHR 0x0A \<or> ch = CHR 0x0D)"

definition mp4_tail :: "string \<Rightarrow> bool" where
  "mp4_tail r =
     (case r of [] \<Rightarrow> True
      | ch # t \<Rightarrow> ch = CHR ''?'' \<and> list_all (\<lambda>x. \<not> line_terminator x) t)"

definition mp4_here :: "string \<Rightarrow> bool" where
  "mp4_here s = (prefix ''.mp4'' s \<and> mp4_tail (drop 4 s))"

fun mp4_search :: "string \<Rightarrow> bool" where
  "mp4_search [] = mp4_here []"
| "mp4_search (ch # s) = (mp4_here (ch # s) \<or> mp4_search s)"

definition isVideo :: "fetch_ctx \<Rightarrow> bool" where
  "isVideo c = mp4_search (pathname (url c))"

definition matchRuntimePath :: "fetch_ctx \<Rightarrow> bool" where
  "matchRuntimePath c = (isSecure c \<and> \<not> isStaticAsset c \<and> \<not> isVideo c)"

subsection \<open>The worker's surroundings\<close>

text \<open>
  \<^verbatim>\<open>configureRuntimeCaching\<close> stores the two limits in \<^verbatim>\<open>runtimeCacheOptions\<close>, wrapped in
  an expiration plugin that the handler passes to its cache lookup.
\<close>

record runtime_opts =
  maxEntries :: js
  maxAgeSeconds :: js

text \<open>
  The parameters of the model.
  \<^item> \<open>amp_regex\<close>: whether a string matches \<^verbatim>\<open>IS_AMP_REGEX\<close> (module \<^verbatim>\<open>./environment\<close>).
  \<^item> \<open>prefetch\<close>, \<open>abortPrefetches\<close>, \<open>resumePrefetches\<close> (module \<^verbatim>\<open>./prefetch\<close>): \<open>None\<close>
    when the call returns, \<open>Some e\<close> when it throws \<open>e\<close>.
  \<^item> \<open>getAPICacheName\<close> (module \<^verbatim>\<open>./cache\<close>) and \<open>offlineResponse\<close> (module
    \<^verbatim>\<open>./offline\<close>): \<open>Inr\<close> the value returned, \<open>Inl\<close> the exception thrown (for
    \<open>offlineResponse\<close> also a promise that rejects).
  \<^item> \<open>network\<close>: the settled state of the fetch that \<^verbatim>\<open>NetworkOnly\<close> issues.
  \<^item> \<open>request_key\<close>: the URL under which the cache storage looks a request up;
    \<open>path_key\<close>: the URL under which \<^verbatim>\<open>cache.put(path, ...)\<close> stores, the path string
    resolved against the worker's own location.
  \<^item> \<open>plugin_accepts\<close>: whether the expiration plugin lets a stored response be used.
\<close>

record env =
  amp_regex :: "string \<Rightarrow> bool"
  prefetch :: "js \<Rightarrow> js \<Rightarrow> exn option"
  abortPrefetches :: "exn option"
  resumePrefetches :: "exn option"
  getAPICacheName :: "string option \<Rightarrow> exn + string"
  offlineResponse :: "string option \<Rightarrow> fetch_ctx \<Rightarrow> exn + response"
  network :: "fetch_ctx \<Rightarrow> exn + response"
  request_key :: "url \<Rightarrow> string"
  path_key :: "string \<Rightarrow> string"
  plugin_accepts :: "runtime_opts \<Rightarrow> response \<Rightarrow> bool"

text \<open>The cache storage: named caches, each from URLs to responses.\<close>

type_synonym cache_store = "(string \<times> (string \<times> response) list) list"

text \<open>What a listener does to its surroundings, in order.\<close>

datatype effect =
    PrefetchCall js js
  | CacheStateCall js
  | AbortCall
  | ResumeCall
  | CacheMatch string string
  | NetworkFetch
  | CachePut string string response
  | ConsoleWarn exn
  | OfflineCall "string option"

text \<open>
  The settled state of the promise a handler returns: resolved with a response, or
  with \<^verbatim>\<open>undefined\<close> (\<open>None\<close>), or rejected.
\<close>

datatype outcome = Resolved "response option" | Rejected exn

fun promise_of :: "exn + response \<Rightarrow> outcome" where
  "promise_of (Inl e) = Rejected e"
| "promise_of (Inr r) = Resolved (Some r)"

subsection \<open>The route handler\<close>

definition isAmp :: "env \<Rightarrow> url \<Rightarrow> bool" where
  "isAmp env u = amp_regex env (search u)"

text \<open>\<^verbatim>\<open>new NetworkOnly().handle(context)\<close>: the response of the network, or a rejection.\<close>

definition networkOnly :: "env \<Rightarrow> fetch_ctx \<Rightarrow> outcome" where
  "networkOnly env c = promise_of (network env c)"

text \<open>
  \<^verbatim>\<open>new CacheOnly(cacheOptions).handle(context)\<close>: the entry of the named cache for the
  request, if the plugin of \<^verbatim>\<open>runtimeCacheOptions\<close> accepts it; it rejects otherwise.
\<close>

definition cacheOnly :: "env \<Rightarrow> runtime_opts \<Rightarrow> cache_store \<Rightarrow> string \<Rightarrow> fetch_ctx \<Rightarrow> exn + response" where
  "cacheOnly env opts store cacheName c =
     (case map_of store cacheName of
        None \<Rightarrow> Inl NoResponse
      | Some entries \<Rightarrow>
          (case map_of entries (request_key env (url c)) of
             None \<Rightarrow> Inl NoResponse
           | Some r \<Rightarrow> if plugin_accepts env opts r then Inr r else Inl NoResponse))"

text \<open>\<^verbatim>\<open>Response.clone\<close>: a second response with the same status, headers and body.\<close>

definition clone :: "response \<Rightarrow> response" where
  "clone r = r"

text \<open>The argument of the handler's \<^verbatim>\<open>prefetch\<close> call: \<^verbatim>\<open>{ path: url.pathname + url.search }\<close>.\<close>

definition amp_payload :: "url \<Rightarrow> js" where
  "amp_payload u = JObj [(''path'', JStr (pathname u @ search u))]"

definition amp_effects :: "env \<Rightarrow> url \<Rightarrow> effect list" where
  "amp_effects env u = (if isAmp env u then [PrefetchCall (amp_payload u) (JBool True)] else [])"

text \<open>The \<^verbatim>\<open>catch\<close> block of the handler: warn, then go to the network.\<close>

definition catch_block :: "env \<Rightarrow> fetch_ctx \<Rightarrow> effect list \<Rightarrow> exn \<Rightarrow> outcome \<times> effect list" where
  "catch_block env c fx e = (networkOnly env c, fx @ [ConsoleWarn e, NetworkFetch])"

text \<open>
  The promise chain the handler returns for a request with a version: the cache, on
  its rejection the network (storing the response when it carries
  \<^verbatim>\<open>x-sw-cache-control\<close>, and answering with a clone), on the rejection of that
  \<^verbatim>\<open>offlineResponse\<close>. The chain is returned without \<^verbatim>\<open>await\<close>, so what it settles to is
  what the handler's promise settles to. The steps of the \<^verbatim>\<open>then\<close> callback (reading a
  header of the response, opening the cache, cloning a response whose body nobody has
  read) are taken to succeed; the write itself is an effect, settled later.
\<close>

definition cache_then_network ::
  "env \<Rightarrow> runtime_opts \<Rightarrow> cache_store \<Rightarrow> fetch_ctx \<Rightarrow> string option \<Rightarrow> string \<Rightarrow> effect list
     \<Rightarrow> outcome \<times> effect list" where
  "cache_then_network env opts store c apiVersion cacheName fx =
     (let looked = fx @ [CacheMatch cacheName (request_key env (url c))] in
      case cacheOnly env opts store cacheName c of
        Inr hit \<Rightarrow> (Resolved (Some hit), looked)
      | Inl miss \<Rightarrow>
          (case network env c of
             Inr apiRes \<Rightarrow>
               (Resolved (Some (clone apiRes)),
                looked @ [NetworkFetch] @
                  (if truthy_str (headers_get (res_headers apiRes) ''x-sw-cache-control'')
                   then [CachePut cacheName (pathname (url c)) apiRes] else []))
           | Inl failed \<Rightarrow>
               (promise_of (offlineResponse env apiVersion c),
                looked @ [NetworkFetch, OfflineCall apiVersion])))"

definition cache_only_bypass :: "request \<Rightarrow> bool" where
  "cache_only_bypass req = (cache req = ''only-if-cached'' \<and> mode req \<noteq> ''same-origin'')"

definition handler :: "env \<Rightarrow> runtime_opts \<Rightarrow> cache_store \<Rightarrow> fetch_ctx \<Rightarrow> outcome \<times> effect list" where
  "handler env opts store c =
     (let u = url c; fx = amp_effects env u in
      case (if isAmp env u then prefetch env (amp_payload u) (JBool True) else None) of
        Some e \<Rightarrow> catch_block env c fx e
      | None \<Rightarrow>
          (let apiVersion = headers_get (req_headers (request c)) ''x-rsf-api-version'' in
           case getAPICacheName env apiVersion of
             Inl e \<Rightarrow> catch_block env c fx e
           | Inr cacheName \<Rightarrow>
               if cache_only_bypass (request c) then (Resolved None, fx)
               else if \<not> truthy_str apiVersion then (networkOnly env c, fx @ [NetworkFetch])
               else cache_then_network env opts store c apiVersion cacheName fx))"

text \<open>
  Whether the calls that the handler makes before it looks at the request's cache mode
  return: \<^verbatim>\<open>prefetch\<close>, called for an AMP page only, and \<^verbatim>\<open>getAPICacheName\<close>.
\<close>

definition calls_return :: "env \<Rightarrow> fetch_ctx \<Rightarrow> bool" where
  "calls_return env c =
     ((if isAmp env (url c) then prefetch env (amp_payload (url c)) (JBool True) = None else True)
      \<and> (case getAPICacheName env (headers_get (req_headers (request c)) ''x-rsf-api-version'') of
            Inl e \<Rightarrow> False
          | Inr cacheName \<Rightarrow> True))"

text \<open>
  \<^verbatim>\<open>registerRoute(matchRuntimePath, handler)\<close>, for the fetch event of a GET request: when
  the classifier accepts the request, the router calls the handler and answers the
  event with the promise the handler returns (\<^verbatim>\<open>event.respondWith\<close>); this route leaves
  alone (\<open>None\<close>) a request the classifier rejects.
\<close>

definition runtime_route ::
  "env \<Rightarrow> runtime_opts \<Rightarrow> cache_store \<Rightarrow> fetch_ctx \<Rightarrow> (outcome \<times> effect list) option" where
  "runtime_route env opts store c =
     (if matchRuntimePath c then Some (handler env opts store c) else None)"

text \<open>
  The writes the handler starts and does not wait for: \<^verbatim>\<open>caches.open(cacheName)\<close>
  (which creates the cache when there is none), then \<^verbatim>\<open>cache.put(path, apiRes)\<close>. The
  cache refuses a response of status 206 and one whose \<^verbatim>\<open>Vary\<close> header lists \<^verbatim>\<open>*\<close>: the
  promise of \<^verbatim>\<open>put\<close> rejects, nobody handles that, and nothing is stored.
\<close>

fun split_commas :: "string \<Rightarrow> string list" where
  "split_commas [] = [[]]"
| "split_commas (ch # s) =
     (if ch = CHR '','' then [] # split_commas s
      else (case split_commas s of [] \<Rightarrow> [[ch]] | w # ws \<Rightarrow> (ch # w) # ws))"

definition blank :: "char \<Rightarrow> bool" where
  "blank ch = (ch = CHR '' '' \<or> ch = CHR 0x09)"

definition trim :: "string \<Rightarrow> string" where
  "trim s = rev (dropWhile blank (rev (dropWhile blank s)))"

definition put_rejects :: "response \<Rightarrow> bool" where
  "put_rejects r =
     (status r = 206 \<or>
      (case headers_get (res_headers r) ''vary'' of
         None \<Rightarrow> False
       | Some v \<Rightarrow> ''*'' \<in> set (map trim (split_commas v))))"

definition cache_put :: "cache_store \<Rightarrow> string \<Rightarrow> string \<Rightarrow> response \<Rightarrow> cache_store" where
  "cache_put store cacheName key r =
     (let entries = (case map_of store cacheName of None \<Rightarrow> [] | Some es \<Rightarrow> es) in
      AList.update cacheName (if put_rejects r then entries else AList.update key r entries) store)"

fun settle :: "env \<Rightarrow> cache_store \<Rightarrow> effect list \<Rightarrow> cache_store" where
  "settle env store [] = store"
| "settle env store (CachePut cacheName path r # fx) =
     settle env (cache_put store cacheName (path_key env path) r) fx"
| "settle env store (other # fx) = settle env store fx"

text \<open>
  A session: the requests handled one after the other, the writes of each settled
  before the next. It gives the effects of all of them, in order.
\<close>

fun visits :: "env \<Rightarrow> runtime_opts \<Rightarrow> cache_store \<Rightarrow> fetch_ctx list \<Rightarrow> effect list" where
  "visits env opts store [] = []"
| "visits env opts store (c # cs) =
     snd (handler env opts store c)
       @ visits env opts (settle env store (snd (handler env opts store c))) cs"

fun is_prefetch_call :: "effect \<Rightarrow> bool" where
  "is_prefetch_call (PrefetchCall p links) = True"
| "is_prefetch_call other = False"

subsection \<open>The message listener\<close>

text \<open>
  The names the file binds: its imports, its declarations, and the globals of a worker
  it uses. A call of any other name throws a ReferenceError before its arguments are
  evaluated.
\<close>

definition module_bindings :: "string list" where
  "module_bindings =
     [''ExpirationPlugin'', ''registerRoute'', ''CacheOnly'', ''NetworkOnly'', ''NetworkFirst'',
      ''skipWaiting'', ''clientsClaim'', ''precacheAndRoute'', ''getCacheKeyForURL'',
      ''IS_AMP_REGEX'', ''resumePrefetches'', ''abortPrefetches'', ''prefetch'',
      ''offlineResponse'', ''getAPICacheName'', ''runtimeCacheOptions'',
      ''configureRuntimeCaching'', ''isSecure'', ''isStaticAsset'', ''isAmp'', ''isVideo'',
      ''matchRuntimePath'']"

definition worker_globals :: "string list" where
  "worker_globals = [''self'', ''caches'', ''clients'', ''console'', ''URL'']"

definition resolve_name :: "string \<Rightarrow> exn option" where
  "resolve_name name =
     (if name \<in> set (module_bindings @ worker_globals) then None else Some (ReferenceError name))"

text \<open>
  \<^verbatim>\<open>configureRuntimeCaching({ maxEntries = 200, maxAgeSeconds = 60 * 60 * 24 } = {})\<close>: an
  argument that is \<^verbatim>\<open>undefined\<close> gives both defaults; \<^verbatim>\<open>null\<close> cannot be destructured;
  a field that is \<^verbatim>\<open>undefined\<close> gives its default.
\<close>

definition or_default :: "js \<Rightarrow> js \<Rightarrow> js" where
  "or_default d v = (if v = JUndefined then d else v)"

definition configureRuntimeCaching :: "js \<Rightarrow> exn + runtime_opts" where
  "configureRuntimeCaching options =
     (let ob = (if options = JUndefined then JObj [] else options) in
      case get_prop ob ''maxEntries'' of
        Inl e \<Rightarrow> Inl e
      | Inr entries \<Rightarrow>
          (case get_prop ob ''maxAgeSeconds'' of
             Inl e \<Rightarrow> Inl e
           | Inr age \<Rightarrow>
               Inr \<lparr>maxEntries = or_default (JNum 200) entries,
                    maxAgeSeconds = or_default (JNum (60 * 60 * 24)) age\<rparr>))"

text \<open>
  The listener, on \<^verbatim>\<open>event.data\<close>. It gives the exception it throws, if any, the new
  \<^verbatim>\<open>runtimeCacheOptions\<close>, and its calls.
\<close>

definition on_message :: "env \<Rightarrow> runtime_opts \<Rightarrow> js \<Rightarrow> exn option \<times> runtime_opts \<times> effect list" where
  "on_message env opts d =
     (if \<not> truthy d then (None, opts, [])
      else case get_prop d ''action'' of
        Inl e \<Rightarrow> (Some e, opts, [])
      | Inr action \<Rightarrow>
          if \<not> truthy action then (None, opts, [])
          else if action = JStr ''cache-path'' then
            (prefetch env d JUndefined, opts, [PrefetchCall d JUndefined])
          else if action = JStr ''cache-state'' then
            (case resolve_name ''cacheState'' of
               Some e \<Rightarrow> (Some e, opts, [])
             | None \<Rightarrow> (None, opts, [CacheStateCall d]))
          else if action = JStr ''configure-runtime-caching'' then
            (case get_prop d ''options'' of
               Inl e \<Rightarrow> (Some e, opts, [])
             | Inr options \<Rightarrow>
                 (case configureRuntimeCaching options of
                    Inl e \<Rightarrow> (Some e, opts, [])
                  | Inr opts' \<Rightarrow> (None, opts', [])))
          else if action = JStr ''abort-prefetches'' then (abortPrefetches env, opts, [AbortCall])
          else if action = JStr ''resume-prefetches'' then (resumePrefetches env, opts, [ResumeCall])
          else (None, opts, []))"

definition recognized_actions :: "js list" where
  "recognized_actions =
     [JStr ''cache-path'', JStr ''cache-state'', JStr ''configure-runtime-caching'',
      JStr ''abort-prefetches'', JStr ''resume-prefetches'']"

subsection \<open>The cache sweep of the install listener\<close>

text \<open>
  \<^verbatim>\<open>caches.keys().then(keys => { for (let key of keys) { if
  (!key.startsWith('workbox-precache')) caches.delete(key) } })\<close>
\<close>

definition sweep_key :: "string \<Rightarrow> cache_store \<Rightarrow> cache_store" where
  "sweep_key key store =
     (if \<not> startsWith key ''workbox-precache'' then AList.delete key store else store)"

definition sweep :: "cache_store \<Rightarrow> cache_store" where
  "sweep store = fold sweep_key (map fst store) store"

text \<open>
  The worker's lifecycle events and what the listeners that this file registers for
  them do to the cache storage: the file has a listener for \<^verbatim>\<open>install\<close> (line 58) and
  none for \<^verbatim>\<open>activate\<close>.
\<close>

datatype lifecycle = Install | Activate

fun own_listener :: "lifecycle \<Rightarrow> cache_store \<Rightarrow> cache_store" where
  "own_listener Install store = sweep store"
| "own_listener Activate store = store"

text \<open>
  The name of the cache that \<^verbatim>\<open>precacheAndRoute\<close> fills, as workbox builds it when, as
  here, no other naming is configured: the prefix, \<^verbatim>\<open>precache\<close>, the version and the
  registration's scope.
\<close>

definition precache_name :: "string \<Rightarrow> string" where
  "precache_name scope = ''workbox-precache-v2-'' @ scope"

subsection \<open>Example surroundings\<close>

text \<open>
  A shop at \<^verbatim>\<open>https://shop.example\<close>, whose worker is served from the same origin. The
  cache storage compares a request by its whole URL, query string included, and resolves
  a path against the worker's origin. The imported functions of the example return
  normally; its pattern for AMP pages accepts the query string \<^verbatim>\<open>?amp=1\<close>. The
  network and \<^verbatim>\<open>offlineResponse\<close> are given by their results.
\<close>

definition shop_url :: "string \<Rightarrow> string \<Rightarrow> url" where
  "shop_url p q = \<lparr>protocol = ''https:'', hostname = ''shop.example'', pathname = p, search = q\<rparr>"

definition shop_ctx :: "string \<Rightarrow> string \<Rightarrow> headers \<Rightarrow> string \<Rightarrow> string \<Rightarrow> fetch_ctx" where
  "shop_ctx p q hs cache_mode req_mode =
     \<lparr>url = shop_url p q, request = \<lparr>req_headers = hs, cache = cache_mode, mode = req_mode\<rparr>\<rparr>"

definition page :: "string \<Rightarrow> response" where
  "page b = \<lparr>status = 200, res_headers = [(''x-sw-cache-control'', ''max-age=3600'')], body = b\<rparr>"

definition default_opts :: runtime_opts where
  "default_opts = \<lparr>maxEntries = JNum 200, maxAgeSeconds = JNum 86400\<rparr>"

definition shop_env :: "exn + response \<Rightarrow> exn + response \<Rightarrow> env" where
  "shop_env net off =
     \<lparr>amp_regex = (\<lambda>s. s = ''?amp=1''),
      prefetch = (\<lambda>p links. None),
      abortPrefetches = None,
      resumePrefetches = None,
      getAPICacheName = (\<lambda>v. Inr (''api-'' @ (case v of None \<Rightarrow> [] | Some s \<Rightarrow> s))),
      offlineResponse = (\<lambda>v c. off),
      network = (\<lambda>c. net),
      request_key = (\<lambda>u. protocol u @ ''//'' @ hostname u @ pathname u @ search u),
      path_key = (\<lambda>p. ''https://shop.example'' @ p),
      plugin_accepts = (\<lambda>opts r. True)\<rparr>"

section \<open>Properties\<close>

text \<open>The header names the handler reads are in lower case already.\<close>

lemma lower_names:
  "lower ''x-rsf-api-version'' = ''x-rsf-api-version''"
  "lower ''x-sw-cache-control'' = ''x-sw-cache-control''"
  "lower ''vary'' = ''vary''"
  by (simp_all add: lower_def lower_char_def)

lemma headers_get_any_case:
  "headers_get [(''X-RSF-API-Version'', ''v1''), (''Accept'', ''text/html'')] ''x-rsf-api-version''
     = Some ''v1''"
  by (simp add: headers_get_def lower_def lower_char_def)

lemmas example_defs = handler_def Let_def amp_effects_def amp_payload_def isAmp_def shop_env_def
  shop_ctx_def shop_url_def headers_get_def lower_names cache_only_bypass_def networkOnly_def
  catch_block_def cache_then_network_def cacheOnly_def clone_def

text \<open>The options in force when the file has loaded: \<^verbatim>\<open>configureRuntimeCaching()\<close>.\<close>

lemma configureRuntimeCaching_default: "configureRuntimeCaching JUndefined = Inr default_opts"
  by (simp add: configureRuntimeCaching_def or_default_def default_opts_def)

subsection \<open>The classifier\<close>

lemma mp4_search_suffix: "mp4_search s = (\<exists>t. suffix t s \<and> mp4_here t)"
  by (induction s) (auto simp: suffix_Cons)

lemma mp4_here_plain:
  assumes "CHR ''?'' \<notin> set t"
  shows "mp4_here t = (t = ''.mp4'')"
proof
  assume h: "mp4_here t"
  then obtain r where t: "t = ''.mp4'' @ r"
    by (auto simp: mp4_here_def prefix_def)
  with h have "mp4_tail r" by (simp add: mp4_here_def)
  with assms t have "r = []" by (cases r) (auto simp: mp4_tail_def)
  with t show "t = ''.mp4''" by simp
next
  assume "t = ''.mp4''"
  then show "mp4_here t" by (simp add: mp4_here_def mp4_tail_def)
qed

lemma mp4_search_plain:
  assumes "CHR ''?'' \<notin> set s"
  shows "mp4_search s = suffix ''.mp4'' s"
proof -
  have "\<And>t. suffix t s \<Longrightarrow> CHR ''?'' \<notin> set t"
    using assms by (auto simp: suffix_def)
  then have "(\<exists>t. suffix t s \<and> mp4_here t) = (\<exists>t. suffix t s \<and> t = ''.mp4'')"
    using mp4_here_plain by blast
  then show ?thesis by (simp add: mp4_search_suffix)
qed

text \<open>
  C8. The classifier is the conjunction of three predicates of the URL alone: the
  request is intercepted iff its protocol is \<^verbatim>\<open>https:\<close> or its host name is
  \<^verbatim>\<open>localhost\<close>, its path does not start with \<^verbatim>\<open>/_next/static/\<close>, and its path does
  not end in \<^verbatim>\<open>.mp4\<close>. The request's headers (an API version among them) play no part:
  every path under \<^verbatim>\<open>/_next/static/\<close> and every path ending in \<^verbatim>\<open>.mp4\<close> is rejected
  whatever the request carries. The path of a parsed URL holds no question mark (the
  query string starts at the first one), which is the hypothesis.
\<close>

theorem matchRuntimePath_conjunction:
  assumes "CHR ''?'' \<notin> set (pathname (url c))"
  shows "matchRuntimePath c =
           ((protocol (url c) = ''https:'' \<or> hostname (url c) = ''localhost'')
            \<and> \<not> prefix ''/_next/static/'' (pathname (url c))
            \<and> \<not> suffix ''.mp4'' (pathname (url c)))
         \<and> matchRuntimePath (c\<lparr>request := r\<rparr>) = matchRuntimePath c
         \<and> (prefix ''/_next/static/'' (pathname (url c)) \<longrightarrow> \<not> matchRuntimePath (c\<lparr>request := r\<rparr>))
         \<and> (suffix ''.mp4'' (pathname (url c)) \<longrightarrow> \<not> matchRuntimePath (c\<lparr>request := r\<rparr>))"
  using assms
  by (simp add: matchRuntimePath_def isSecure_def isStaticAsset_def isVideo_def
      startsWith_def mp4_search_plain)

text \<open>
  A product page is intercepted; a build asset and a video are not, with or without an
  API version.
\<close>

theorem matchRuntimePath_conjunction_witness:
  "CHR ''?'' \<notin> set ''/p/1''
   \<and> matchRuntimePath (shop_ctx ''/p/1'' [] [] ''default'' ''cors'')
   \<and> \<not> matchRuntimePath
         (shop_ctx ''/_next/static/chunk.js'' [] [(''x-rsf-api-version'', ''v1'')] ''default'' ''cors'')
   \<and> \<not> matchRuntimePath
         (shop_ctx ''/media/intro.mp4'' [] [(''x-rsf-api-version'', ''v1'')] ''default'' ''cors'')"
  using
    matchRuntimePath_conjunction [of "shop_ctx ''/p/1'' [] [] ''default'' ''cors''"
      "request (shop_ctx ''/p/1'' [] [] ''default'' ''cors'')"]
    matchRuntimePath_conjunction [of "shop_ctx ''/_next/static/chunk.js'' [] [] ''default'' ''cors''"
      "request (shop_ctx ''/_next/static/chunk.js'' [] [(''x-rsf-api-version'', ''v1'')] ''default'' ''cors'')"]
    matchRuntimePath_conjunction [of "shop_ctx ''/media/intro.mp4'' [] [] ''default'' ''cors''"
      "request (shop_ctx ''/media/intro.mp4'' [] [(''x-rsf-api-version'', ''v1'')] ''default'' ''cors'')"]
  by (simp add: shop_ctx_def shop_url_def suffix_to_prefix)

subsection \<open>The handler's catch block\<close>

text \<open>
  What the \<^verbatim>\<open>catch\<close> block does catch: an exception thrown in the body of the handler,
  by the \<^verbatim>\<open>prefetch\<close> call for an AMP page or by \<^verbatim>\<open>getAPICacheName\<close>. The handler's
  result is then that of \<^verbatim>\<open>NetworkOnly\<close> alone. And the handler's promise rejects only
  when the request to the network has failed.
\<close>

lemma handler_catch_block:
  "(isAmp env (url c) \<and> prefetch env (amp_payload (url c)) (JBool True) = Some e \<longrightarrow>
      handler env opts store c
        = (networkOnly env c, amp_effects env (url c) @ [ConsoleWarn e, NetworkFetch]))
   \<and> ((isAmp env (url c) \<longrightarrow> prefetch env (amp_payload (url c)) (JBool True) = None)
       \<and> getAPICacheName env (headers_get (req_headers (request c)) ''x-rsf-api-version'') = Inl e \<longrightarrow>
      handler env opts store c
        = (networkOnly env c, amp_effects env (url c) @ [ConsoleWarn e, NetworkFetch]))
   \<and> (fst (handler env opts store c) = Rejected e' \<longrightarrow> (\<exists>e''. network env c = Inl e''))"
  by (auto simp: handler_def Let_def catch_block_def networkOnly_def cache_then_network_def
      split: option.splits sum.splits if_splits elim: promise_of.elims)


text \<open>
  C1 says that any exception raised inside the handler is caught at the top level and
  ends in the plain pass-through to the network. The code does not do so for the last
  step of the promise chain, which the handler returns without \<^verbatim>\<open>await\<close>. A request
  with version \<^verbatim>\<open>v1\<close> misses the cache, the network is down, and \<^verbatim>\<open>offlineResponse\<close>
  throws: the handler's promise rejects with that exception. The \<^verbatim>\<open>catch\<close> block has not
  run (there is no warning and no second request to the network), and the result is not
  what \<^verbatim>\<open>NetworkOnly\<close> gives.
\<close>

theorem handler_offline_failure_escapes_catch:
  "handler (shop_env (Inl NoResponse) (Inl (Thrown ''offline''))) default_opts []
        (shop_ctx ''/p/1'' [] [(''x-rsf-api-version'', ''v1'')] ''default'' ''cors'')
     = (Rejected (Thrown ''offline''),
        [CacheMatch ''api-v1'' ''https://shop.example/p/1'', NetworkFetch, OfflineCall (Some ''v1'')])
   \<and> ConsoleWarn (Thrown ''offline'')
       \<notin> set (snd (handler (shop_env (Inl NoResponse) (Inl (Thrown ''offline''))) default_opts []
            (shop_ctx ''/p/1'' [] [(''x-rsf-api-version'', ''v1'')] ''default'' ''cors'')))
   \<and> networkOnly (shop_env (Inl NoResponse) (Inl (Thrown ''offline'')))
        (shop_ctx ''/p/1'' [] [(''x-rsf-api-version'', ''v1'')] ''default'' ''cors'')
     = Rejected NoResponse"
  by (simp add: example_defs)

subsection \<open>Requests without a version\<close>

text \<open>
  C3, as the code has it. When the request has no \<^verbatim>\<open>x-rsf-api-version\<close> header, the
  handler looks nothing up in a cache and writes nothing to one. Unless the request
  asks for \<^verbatim>\<open>only-if-cached\<close> with a mode other than \<^verbatim>\<open>same-origin\<close>, the handler's
  result is that of \<^verbatim>\<open>NetworkOnly\<close>. If the request does ask so, and the calls made
  before that test return, the handler resolves with \<^verbatim>\<open>undefined\<close> and makes no request
  to the network; if one of those calls throws, the \<^verbatim>\<open>catch\<close> block sends this request
  to the network as well.
\<close>

theorem handler_without_version:
  assumes "headers_get (req_headers (request c)) ''x-rsf-api-version'' = None"
  shows "(\<forall>n k. CacheMatch n k \<notin> set (snd (handler env opts store c)))
       \<and> (\<forall>n p r. CachePut n p r \<notin> set (snd (handler env opts store c)))
       \<and> (\<not> cache_only_bypass (request c) \<longrightarrow>
            fst (handler env opts store c) = networkOnly env c
            \<and> NetworkFetch \<in> set (snd (handler env opts store c)))
       \<and> (cache_only_bypass (request c) \<and> calls_return env c \<longrightarrow>
            handler env opts store c = (Resolved None, amp_effects env (url c))
            \<and> NetworkFetch \<notin> set (snd (handler env opts store c)))
       \<and> (cache_only_bypass (request c) \<and> \<not> calls_return env c \<longrightarrow>
            fst (handler env opts store c) = networkOnly env c
            \<and> NetworkFetch \<in> set (snd (handler env opts store c)))"
  using assms
  by (auto simp: calls_return_def handler_def Let_def catch_block_def amp_effects_def
      split: option.splits sum.splits if_splits)

text \<open>
  Without a version the network answers, though a cache holds the page; the
  \<^verbatim>\<open>only-if-cached\<close> request of a \<^verbatim>\<open>no-cors\<close> fetch gets nothing, and goes to the network
  when \<^verbatim>\<open>getAPICacheName\<close> throws.
\<close>

theorem handler_without_version_witness:
  "headers_get (req_headers (request (shop_ctx ''/p/1'' [] [] ''default'' ''cors''))) ''x-rsf-api-version'' = None
   \<and> handler (shop_env (Inr (page ''one'')) (Inl NoResponse)) default_opts
        [(''api-'', [(''https://shop.example/p/1'', page ''old'')])]
        (shop_ctx ''/p/1'' [] [] ''default'' ''cors'')
      = (Resolved (Some (page ''one'')), [NetworkFetch])
   \<and> calls_return (shop_env (Inr (page ''one'')) (Inl NoResponse))
        (shop_ctx ''/p/1'' [] [] ''only-if-cached'' ''no-cors'')
   \<and> handler (shop_env (Inr (page ''one'')) (Inl NoResponse)) default_opts
        [(''api-'', [(''https://shop.example/p/1'', page ''old'')])]
        (shop_ctx ''/p/1'' [] [] ''only-if-cached'' ''no-cors'')
      = (Resolved None, [])
   \<and> fst (handler ((shop_env (Inr (page ''one'')) (Inl NoResponse))\<lparr>getAPICacheName := \<lambda>v. Inl (Thrown ''name'')\<rparr>)
        default_opts [] (shop_ctx ''/p/1'' [] [] ''only-if-cached'' ''no-cors''))
      = Resolved (Some (page ''one''))"
  using
    handler_without_version [of "shop_ctx ''/p/1'' [] [] ''default'' ''cors''"
      "shop_env (Inr (page ''one'')) (Inl NoResponse)" default_opts
      "[(''api-'', [(''https://shop.example/p/1'', page ''old'')])]"]
    handler_without_version [of "shop_ctx ''/p/1'' [] [] ''only-if-cached'' ''no-cors''"
      "shop_env (Inr (page ''one'')) (Inl NoResponse)" default_opts
      "[(''api-'', [(''https://shop.example/p/1'', page ''old'')])]"]
    handler_without_version [of "shop_ctx ''/p/1'' [] [] ''only-if-cached'' ''no-cors''"
      "(shop_env (Inr (page ''one'')) (Inl NoResponse))\<lparr>getAPICacheName := \<lambda>v. Inl (Thrown ''name'')\<rparr>"
      default_opts "[]"]
  by (simp add: example_defs calls_return_def)

text \<open>
  C3 as it is written fails, twice. The classifier accepts an \<^verbatim>\<open>only-if-cached\<close>
  request of mode \<^verbatim>\<open>no-cors\<close> to the shop, so the router answers the event with the
  handler's promise, which resolves with \<^verbatim>\<open>undefined\<close> while the network would have
  answered: the event is not left to the platform. And the same kind of request for an
  AMP page, with a \<^verbatim>\<open>prefetch\<close> that throws, does not get nothing: it is sent to the
  network.
\<close>

theorem handler_without_version_counterexample:
  "headers_get (req_headers (request (shop_ctx ''/p/1'' [] [] ''only-if-cached'' ''no-cors'')))
      ''x-rsf-api-version'' = None
   \<and> cache_only_bypass (request (shop_ctx ''/p/1'' [] [] ''only-if-cached'' ''no-cors''))
   \<and> runtime_route (shop_env (Inr (page ''one'')) (Inl NoResponse)) default_opts []
        (shop_ctx ''/p/1'' [] [] ''only-if-cached'' ''no-cors'')
      = Some (Resolved None, [])
   \<and> network (shop_env (Inr (page ''one'')) (Inl NoResponse))
        (shop_ctx ''/p/1'' [] [] ''only-if-cached'' ''no-cors'')
      = Inr (page ''one'')
   \<and> handler ((shop_env (Inr (page ''amp'')) (Inl NoResponse))\<lparr>prefetch := \<lambda>p links. Some (Thrown ''queue'')\<rparr>)
        default_opts [] (shop_ctx ''/foo'' ''?amp=1'' [] ''only-if-cached'' ''no-cors'')
      = (Resolved (Some (page ''amp'')),
         [PrefetchCall (JObj [(''path'', JStr ''/foo?amp=1'')]) (JBool True),
          ConsoleWarn (Thrown ''queue''), NetworkFetch])"
  by (simp add: example_defs runtime_route_def matchRuntimePath_def isSecure_def isStaticAsset_def
      isVideo_def startsWith_def mp4_here_def)

subsection \<open>Requests with a version\<close>




subsection \<open>The offline fallback\<close>

text \<open>
  When the handler has looked the request up (which it does for a request with a
  version only), the lookup has missed and the request to the network has failed, the
  handler's promise settles as \<^verbatim>\<open>offlineResponse\<close> does for the request's version and
  the route's argument: a response it produces is the response of the handler, and an
  exception it throws is the rejection of the handler.
\<close>

lemma handler_offline_outcome:
  assumes "CacheMatch n k \<in> set (snd (handler env opts store c))"
    and "cacheOnly env opts store n c = Inl e1"
    and "network env c = Inl e2"
  shows "truthy_str (headers_get (req_headers (request c)) ''x-rsf-api-version'')
       \<and> fst (handler env opts store c)
           = promise_of (offlineResponse env (headers_get (req_headers (request c)) ''x-rsf-api-version'') c)
       \<and> OfflineCall (headers_get (req_headers (request c)) ''x-rsf-api-version'')
           \<in> set (snd (handler env opts store c))"
  using assms
  by (auto simp: handler_def Let_def catch_block_def amp_effects_def cache_then_network_def
      split: option.splits sum.splits if_splits)

text \<open>Offline, with an empty cache, the page of \<^verbatim>\<open>offlineResponse\<close> is served.\<close>

lemma handler_offline_page:
  "handler (shop_env (Inl NoResponse) (Inr (page ''offline''))) default_opts []
        (shop_ctx ''/cart'' [] [(''x-rsf-api-version'', ''v2'')] ''default'' ''cors'')
     = (Resolved (Some (page ''offline'')),
        [CacheMatch ''api-v2'' ''https://shop.example/cart'', NetworkFetch, OfflineCall (Some ''v2'')])"
  by (simp add: example_defs)


subsection \<open>The prefetch for AMP pages\<close>

lemma handler_effects_shape:
  "\<exists>fx. snd (handler env opts store c) = amp_effects env (url c) @ fx
        \<and> \<not> list_ex is_prefetch_call fx"
  by (auto simp: handler_def Let_def catch_block_def cache_then_network_def
      split: option.splits sum.splits if_splits)

lemma handler_prefetch_count:
  "length (filter is_prefetch_call (snd (handler env opts store c)))
     = (if isAmp env (url c) then 1 else 0)"
proof -
  obtain fx where fx: "snd (handler env opts store c) = amp_effects env (url c) @ fx"
    and no: "\<not> list_ex is_prefetch_call fx"
    using handler_effects_shape by blast
  from no have "filter is_prefetch_call fx = []"
    by (simp add: list_ex_iff filter_empty_conv)
  with fx show ?thesis by (simp add: amp_effects_def)
qed

text \<open>What the handler hands to \<^verbatim>\<open>prefetch\<close>: the path of the request with its query string.\<close>

lemma handler_prefetch_argument:
  assumes "isAmp env (url c)"
  shows "hd (snd (handler env opts store c))
           = PrefetchCall (JObj [(''path'', JStr (pathname (url c) @ search (url c)))]) (JBool True)"
proof -
  obtain fx where "snd (handler env opts store c) = amp_effects env (url c) @ fx"
    using handler_effects_shape by blast
  with assms show ?thesis by (simp add: amp_effects_def amp_payload_def)
qed

text \<open>
  C4, as the code has it. For a request whose query string matches the pattern for AMP
  pages, the handler calls \<^verbatim>\<open>prefetch\<close> exactly once, with the flag \<^verbatim>\<open>true\<close>, before
  anything else it does, and it does not wait for the call; for any other request it
  does not call it. Every such request makes its call: in a session the number of
  calls is the number of AMP requests, repeated or not.
\<close>

theorem handler_amp_prefetch:
  "(isAmp env (url c) \<longrightarrow>
      (\<exists>p fx. snd (handler env opts store c) = PrefetchCall p (JBool True) # fx
              \<and> \<not> list_ex is_prefetch_call fx))
   \<and> (\<not> isAmp env (url c) \<longrightarrow> \<not> list_ex is_prefetch_call (snd (handler env opts store c)))
   \<and> length (filter is_prefetch_call (visits env opts store cs))
       = length (filter (\<lambda>c. isAmp env (url c)) cs)"
proof (intro conjI impI)
  obtain fx where fx: "snd (handler env opts store c) = amp_effects env (url c) @ fx"
    and no: "\<not> list_ex is_prefetch_call fx"
    using handler_effects_shape by blast
  { assume "isAmp env (url c)"
    with fx no show "\<exists>p fx. snd (handler env opts store c) = PrefetchCall p (JBool True) # fx
              \<and> \<not> list_ex is_prefetch_call fx"
      by (simp add: amp_effects_def) }
  { assume "\<not> isAmp env (url c)"
    with fx no show "\<not> list_ex is_prefetch_call (snd (handler env opts store c))"
      by (simp add: amp_effects_def) }
  show "length (filter is_prefetch_call (visits env opts store cs))
       = length (filter (\<lambda>c. isAmp env (url c)) cs)"
    by (induction cs arbitrary: store) (simp_all add: handler_prefetch_count)
qed

text \<open>One call for the AMP page, none for the page after it.\<close>

theorem handler_amp_prefetch_witness:
  "isAmp (shop_env (Inr (page ''amp'')) (Inl NoResponse)) (url (shop_ctx ''/foo'' ''?amp=1'' [] ''default'' ''cors''))
   \<and> (\<exists>p fx. snd (handler (shop_env (Inr (page ''amp'')) (Inl NoResponse)) default_opts []
                    (shop_ctx ''/foo'' ''?amp=1'' [] ''default'' ''cors''))
               = PrefetchCall p (JBool True) # fx \<and> \<not> list_ex is_prefetch_call fx)
   \<and> length (filter is_prefetch_call (visits (shop_env (Inr (page ''amp'')) (Inl NoResponse)) default_opts []
        [shop_ctx ''/foo'' ''?amp=1'' [] ''default'' ''cors'', shop_ctx ''/bar'' [] [] ''default'' ''cors''])) = 1"
  using handler_amp_prefetch [of "shop_env (Inr (page ''amp'')) (Inl NoResponse)"
      "shop_ctx ''/foo'' ''?amp=1'' [] ''default'' ''cors''" default_opts "[]"
      "[shop_ctx ''/foo'' ''?amp=1'' [] ''default'' ''cors'', shop_ctx ''/bar'' [] [] ''default'' ''cors'']"]
  by (simp add: isAmp_def shop_env_def shop_ctx_def shop_url_def)

text \<open>
  C4 as it is written fails. For the request \<^verbatim>\<open>/foo?amp=1\<close> the handler's one call
  carries the path \<^verbatim>\<open>/foo?amp=1\<close>, and there is no call for \<^verbatim>\<open>/foo\<close>; and two visits
  of the page make two calls.
\<close>

theorem handler_amp_prefetch_counterexample:
  "snd (handler (shop_env (Inr (page ''amp'')) (Inl NoResponse)) default_opts []
          (shop_ctx ''/foo'' ''?amp=1'' [] ''default'' ''cors''))
     = [PrefetchCall (JObj [(''path'', JStr ''/foo?amp=1'')]) (JBool True), NetworkFetch]
   \<and> PrefetchCall (JObj [(''path'', JStr ''/foo'')]) (JBool True)
       \<notin> set (snd (handler (shop_env (Inr (page ''amp'')) (Inl NoResponse)) default_opts []
          (shop_ctx ''/foo'' ''?amp=1'' [] ''default'' ''cors'')))
   \<and> filter is_prefetch_call
        (visits (shop_env (Inr (page ''amp'')) (Inl NoResponse)) default_opts []
          [shop_ctx ''/foo'' ''?amp=1'' [] ''default'' ''cors'',
           shop_ctx ''/foo'' ''?amp=1'' [] ''default'' ''cors''])
     = [PrefetchCall (JObj [(''path'', JStr ''/foo?amp=1'')]) (JBool True),
        PrefetchCall (JObj [(''path'', JStr ''/foo?amp=1'')]) (JBool True)]"
  by (simp add: example_defs page_def)

subsection \<open>Writing to the cache and reading it back\<close>

lemma settle_no_put:
  "\<forall>n p r. CachePut n p r \<notin> set fx \<Longrightarrow> settle env store fx = store"
  by (induction env store fx rule: settle.induct) auto

lemma settle_append: "settle env store (fx @ gx) = settle env (settle env store fx) gx"
  by (induction env store fx rule: settle.induct) auto

lemma cacheOnly_after_put:
  assumes "request_key env (url c) = key" and "plugin_accepts env opts r" and "\<not> put_rejects r"
  shows "cacheOnly env opts (cache_put store n key r) n c = Inr r"
  using assms by (simp add: cacheOnly_def cache_put_def Let_def update_conv')

text \<open>
  The handler stores a response under \<^verbatim>\<open>url.pathname\<close> and looks a request up by the
  request itself. Where the two name the same URL (a request to the worker's origin
  with no query string) and the cache takes the response, what was stored is what the
  next lookup returns: the caller
  of the first request gets a clone of the network's response, the write puts that
  response into the cache of the version, and the same request is then answered from
  the cache with it, without the network.
\<close>

lemma handler_roundtrip:
  assumes version: "truthy_str (headers_get (req_headers (request c)) ''x-rsf-api-version'')"
    and calls: "isAmp env (url c) \<Longrightarrow> prefetch env (amp_payload (url c)) (JBool True) = None"
      "getAPICacheName env (headers_get (req_headers (request c)) ''x-rsf-api-version'') = Inr n"
    and direct: "\<not> cache_only_bypass (request c)"
    and miss: "cacheOnly env opts store n c = Inl e"
    and net: "network env c = Inr apiRes"
      "truthy_str (headers_get (res_headers apiRes) ''x-sw-cache-control'')"
    and same_key: "request_key env (url c) = path_key env (pathname (url c))"
    and taken: "\<not> put_rejects apiRes"
    and fresh: "plugin_accepts env opts apiRes"
  shows "fst (handler env opts store c) = Resolved (Some (clone apiRes))
       \<and> settle env store (snd (handler env opts store c))
           = cache_put store n (path_key env (pathname (url c))) apiRes
       \<and> handler env opts (settle env store (snd (handler env opts store c))) c =
            (Resolved (Some apiRes), amp_effects env (url c) @ [CacheMatch n (request_key env (url c))])"
proof -
  let ?fx = "amp_effects env (url c)"
  let ?key = "request_key env (url c)"
  have first: "handler env opts store c
      = (Resolved (Some (clone apiRes)),
         ?fx @ [CacheMatch n ?key, NetworkFetch, CachePut n (pathname (url c)) apiRes])"
    using version calls direct miss net
    by (auto simp: handler_def Let_def cache_then_network_def split: option.splits)
  have "settle env store ?fx = store"
    by (rule settle_no_put) (simp add: amp_effects_def)
  then have written: "settle env store (snd (handler env opts store c))
      = cache_put store n (path_key env (pathname (url c))) apiRes"
    by (simp add: first settle_append)
  have hit: "cacheOnly env opts (cache_put store n (path_key env (pathname (url c))) apiRes) n c
      = Inr apiRes"
    using same_key fresh taken by (rule cacheOnly_after_put)
  have second: "handler env opts (cache_put store n (path_key env (pathname (url c))) apiRes) c
      = (Resolved (Some apiRes), ?fx @ [CacheMatch n ?key])"
    using version calls direct hit
    by (auto simp: handler_def Let_def cache_then_network_def split: option.splits)
  from first written second show ?thesis by simp
qed

text \<open>
  C2 says that a response written for a request is returned by the next lookup for the
  same path and version. The code does not do so for a request with a query string.
  The request \<^verbatim>\<open>/p/1?color=red\<close> with version \<^verbatim>\<open>v1\<close> is answered by the network with a
  cacheable response, which the handler stores under \<^verbatim>\<open>/p/1\<close>, the query string
  dropped. The same request, made again with the network down, is looked up under its
  whole URL, misses, and ends in the offline response.
\<close>

theorem handler_query_string_not_served_from_cache:
  "handler (shop_env (Inr (page ''red'')) (Inl NoResponse)) default_opts []
        (shop_ctx ''/p/1'' ''?color=red'' [(''x-rsf-api-version'', ''v1'')] ''default'' ''cors'')
     = (Resolved (Some (page ''red'')),
        [CacheMatch ''api-v1'' ''https://shop.example/p/1?color=red'', NetworkFetch,
         CachePut ''api-v1'' ''/p/1'' (page ''red'')])
   \<and> settle (shop_env (Inr (page ''red'')) (Inl NoResponse)) []
        [CacheMatch ''api-v1'' ''https://shop.example/p/1?color=red'', NetworkFetch,
         CachePut ''api-v1'' ''/p/1'' (page ''red'')]
     = [(''api-v1'', [(''https://shop.example/p/1'', page ''red'')])]
   \<and> handler (shop_env (Inl NoResponse) (Inr (page ''offline''))) default_opts
        [(''api-v1'', [(''https://shop.example/p/1'', page ''red'')])]
        (shop_ctx ''/p/1'' ''?color=red'' [(''x-rsf-api-version'', ''v1'')] ''default'' ''cors'')
     = (Resolved (Some (page ''offline'')),
        [CacheMatch ''api-v1'' ''https://shop.example/p/1?color=red'', NetworkFetch,
         OfflineCall (Some ''v1'')])"
  by (simp add: example_defs page_def cache_put_def put_rejects_def)

text \<open>The response stored for \<^verbatim>\<open>/p/1?color=red\<close> answers the request for \<^verbatim>\<open>/p/1\<close>.\<close>

lemma handler_query_string_answers_plain_path:
  "handler (shop_env (Inl NoResponse) (Inr (page ''offline''))) default_opts
        [(''api-v1'', [(''https://shop.example/p/1'', page ''red'')])]
        (shop_ctx ''/p/1'' [] [(''x-rsf-api-version'', ''v1'')] ''default'' ''cors'')
     = (Resolved (Some (page ''red'')), [CacheMatch ''api-v1'' ''https://shop.example/p/1''])"
  by (simp add: example_defs page_def)

text \<open>A partial response (status 206) opens the cache of the version and stores nothing.\<close>

lemma settle_partial_content:
  "settle (shop_env (Inl NoResponse) (Inl NoResponse)) []
       [CachePut ''api-v1'' ''/clip'' ((page ''part'')\<lparr>status := 206\<rparr>)]
     = [(''api-v1'', [])]"
  by (simp add: cache_put_def put_rejects_def page_def)

subsection \<open>The cache sweep\<close>

lemma delete_as_filter: "AList.delete k al = filter (\<lambda>entry. fst entry \<noteq> k) al"
  by (induction al) auto

lemma fold_sweep_key:
  "fold sweep_key ks store
     = filter (\<lambda>entry. fst entry \<in> set ks \<longrightarrow> startsWith (fst entry) ''workbox-precache'') store"
proof (induction ks arbitrary: store)
  case Nil
  then show ?case by simp
next
  case (Cons k ks)
  have "fold sweep_key (k # ks) store
      = filter (\<lambda>entry. fst entry \<in> set ks \<longrightarrow> startsWith (fst entry) ''workbox-precache'')
          (sweep_key k store)"
    by (simp add: Cons.IH)
  also have "\<dots> = filter (\<lambda>entry. fst entry \<in> set (k # ks) \<longrightarrow>
      startsWith (fst entry) ''workbox-precache'') store"
  proof (cases "startsWith k ''workbox-precache''")
    case True
    then show ?thesis
      by (auto simp: sweep_key_def intro!: filter_cong)
  next
    case False
    then show ?thesis
      by (auto simp: sweep_key_def delete_as_filter intro!: filter_cong)
  qed
  finally show ?case .
qed

lemma sweep_filter:
  "sweep store = filter (\<lambda>entry. startsWith (fst entry) ''workbox-precache'') store"
  unfolding sweep_def fold_sweep_key by (rule filter_cong) auto

lemma map_of_filter_key:
  "map_of (filter (\<lambda>entry. P (fst entry)) al) k = (if P k then map_of al k else None)"
  by (induction al) auto

lemma sweep_keeps_precache_only:
  "sweep store = filter (\<lambda>entry. startsWith (fst entry) ''workbox-precache'') store
   \<and> map_of (sweep store) (precache_name scope) = map_of store (precache_name scope)
   \<and> (\<not> startsWith name ''workbox-precache'' \<longrightarrow> map_of (sweep store) name = None)"
  by (simp add: sweep_filter map_of_filter_key startsWith_def precache_name_def)

text \<open>
  C6, as the code has it. The sweep runs in the listener of the \<^verbatim>\<open>install\<close> event; the
  file registers no listener for \<^verbatim>\<open>activate\<close>. It goes through all cache names and
  deletes every cache whose name does not start with \<^verbatim>\<open>workbox-precache\<close>, whatever it
  holds. Every cache whose name starts so is left as it was: the cache that
  \<^verbatim>\<open>precacheAndRoute\<close> fills, which survives with its entries, and any other cache of
  such a name as well.
\<close>

theorem install_sweep_by_prefix:
  "own_listener Install store
     = filter (\<lambda>entry. startsWith (fst entry) ''workbox-precache'') store
   \<and> own_listener Activate store = store
   \<and> map_of (own_listener Install store) name
       = (if startsWith name ''workbox-precache'' then map_of store name else None)
   \<and> map_of (own_listener Install store) (precache_name scope)
       = map_of store (precache_name scope)"
  by (simp add: sweep_filter map_of_filter_key startsWith_def precache_name_def)

text \<open>The cache of an API version and the offline cache go; the precache stays.\<close>

theorem install_sweep_by_prefix_witness:
  "own_listener Install
       [(''api-v1'', [(''https://shop.example/p/1'', page ''red'')]),
        (''workbox-precache-v2-https://shop.example/'',
           [(''https://shop.example/_next/static/a.js'', page ''js'')]),
        (''offlineCache'', [])]
      = [(''workbox-precache-v2-https://shop.example/'',
            [(''https://shop.example/_next/static/a.js'', page ''js'')])]
   \<and> map_of (own_listener Install
       [(''api-v1'', [(''https://shop.example/p/1'', page ''red'')]),
        (''workbox-precache-v2-https://shop.example/'',
           [(''https://shop.example/_next/static/a.js'', page ''js'')]),
        (''offlineCache'', [])]) ''api-v1'' = None
   \<and> map_of (own_listener Install
       [(''api-v1'', [(''https://shop.example/p/1'', page ''red'')]),
        (''workbox-precache-v2-https://shop.example/'',
           [(''https://shop.example/_next/static/a.js'', page ''js'')]),
        (''offlineCache'', [])]) (precache_name ''https://shop.example/'')
      = Some [(''https://shop.example/_next/static/a.js'', page ''js'')]"
  using install_sweep_by_prefix [of
      "[(''api-v1'', [(''https://shop.example/p/1'', page ''red'')]),
        (''workbox-precache-v2-https://shop.example/'',
           [(''https://shop.example/_next/static/a.js'', page ''js'')]),
        (''offlineCache'', [])]" "''api-v1''" "''https://shop.example/''"]
  by (simp add: startsWith_def precache_name_def)

text \<open>
  C6 as it is written fails. A cache named \<^verbatim>\<open>workbox-precache-v1-https://shop.example/\<close>,
  the precache of an earlier build, is not the current precache and yet survives the
  sweep. And at \<^verbatim>\<open>activate\<close> the file's listeners delete nothing: the cache of an old
  API version is still there.
\<close>

theorem install_sweep_by_prefix_counterexample:
  "''workbox-precache-v1-https://shop.example/'' \<noteq> precache_name ''https://shop.example/''
   \<and> own_listener Install
       [(''api-v1'', [(''https://shop.example/p/1'', page ''red'')]),
        (''workbox-precache-v1-https://shop.example/'',
           [(''https://shop.example/_next/static/old.js'', page ''old'')]),
        (''workbox-precache-v2-https://shop.example/'',
           [(''https://shop.example/_next/static/a.js'', page ''js'')])]
      = [(''workbox-precache-v1-https://shop.example/'',
            [(''https://shop.example/_next/static/old.js'', page ''old'')]),
         (''workbox-precache-v2-https://shop.example/'',
            [(''https://shop.example/_next/static/a.js'', page ''js'')])]
   \<and> own_listener Activate
       [(''api-v1'', [(''https://shop.example/p/1'', page ''red'')]),
        (''workbox-precache-v2-https://shop.example/'',
           [(''https://shop.example/_next/static/a.js'', page ''js'')])]
      = [(''api-v1'', [(''https://shop.example/p/1'', page ''red'')]),
         (''workbox-precache-v2-https://shop.example/'',
            [(''https://shop.example/_next/static/a.js'', page ''js'')])]"
  by (simp add: sweep_filter startsWith_def precache_name_def)

subsection \<open>The message listener\<close>

text \<open>
  C9. A message whose data is absent (falsy), whose data has no \<^verbatim>\<open>action\<close>, or whose
  action is none of the five the listener knows, does nothing: the listener throws
  nothing, leaves \<^verbatim>\<open>runtimeCacheOptions\<close> as it is and makes no call.
\<close>

theorem on_message_ignores_unrecognized:
  assumes "\<not> truthy d \<or> get_prop d ''action'' = Inr JUndefined
           \<or> (\<exists>a. get_prop d ''action'' = Inr a \<and> a \<notin> set recognized_actions)"
  shows "on_message env opts d = (None, opts, [])"
  using assms
  by (auto simp: on_message_def recognized_actions_def)

text \<open>A message of \<^verbatim>\<open>null\<close>, one without an action, and one with an unknown action.\<close>

theorem on_message_ignores_unrecognized_witness:
  "\<not> truthy JNull
   \<and> get_prop (JObj [(''path'', JStr ''/p/1'')]) ''action'' = Inr JUndefined
   \<and> get_prop (JObj [(''action'', JStr ''warm-up'')]) ''action'' = Inr (JStr ''warm-up'')
   \<and> JStr ''warm-up'' \<notin> set recognized_actions
   \<and> on_message (shop_env (Inl NoResponse) (Inl NoResponse)) default_opts JNull = (None, default_opts, [])
   \<and> on_message (shop_env (Inl NoResponse) (Inl NoResponse)) default_opts (JObj [(''path'', JStr ''/p/1'')])
       = (None, default_opts, [])
   \<and> on_message (shop_env (Inl NoResponse) (Inl NoResponse)) default_opts (JObj [(''action'', JStr ''warm-up'')])
       = (None, default_opts, [])"
  using
    on_message_ignores_unrecognized [of JNull "shop_env (Inl NoResponse) (Inl NoResponse)" default_opts]
    on_message_ignores_unrecognized [of "JObj [(''path'', JStr ''/p/1'')]"
      "shop_env (Inl NoResponse) (Inl NoResponse)" default_opts]
    on_message_ignores_unrecognized [of "JObj [(''action'', JStr ''warm-up'')]"
      "shop_env (Inl NoResponse) (Inl NoResponse)" default_opts]
  by (simp add: recognized_actions_def)

text \<open>
  C10. The name \<^verbatim>\<open>cacheState\<close> is bound nowhere in the file. A message with the action
  \<^verbatim>\<open>cache-state\<close> therefore makes the listener throw a ReferenceError, whatever else
  the message holds; nothing is called and nothing changes.
\<close>

theorem on_message_cache_state_throws:
  assumes "get_prop d ''action'' = Inr (JStr ''cache-state'')"
  shows "''cacheState'' \<notin> set (module_bindings @ worker_globals)
       \<and> on_message env opts d = (Some (ReferenceError ''cacheState''), opts, [])"
proof -
  have unbound: "''cacheState'' \<notin> set (module_bindings @ worker_globals)"
    by (simp add: module_bindings_def worker_globals_def)
  from assms have "truthy d" by (cases d) auto
  with assms unbound show ?thesis
    by (simp add: on_message_def resolve_name_def)
qed

theorem on_message_cache_state_throws_witness:
  "get_prop (JObj [(''action'', JStr ''cache-state''), (''state'', JObj [])]) ''action''
     = Inr (JStr ''cache-state'')
   \<and> on_message (shop_env (Inl NoResponse) (Inl NoResponse)) default_opts
        (JObj [(''action'', JStr ''cache-state''), (''state'', JObj [])])
      = (Some (ReferenceError ''cacheState''), default_opts, [])"
  using on_message_cache_state_throws [of "JObj [(''action'', JStr ''cache-state''), (''state'', JObj [])]"
      "shop_env (Inl NoResponse) (Inl NoResponse)" default_opts]
  by simp

end
